theory Spec2Isabelle
  imports Main "HOL-Library.Sublist"
begin

section \<open>Python primitives used by database.py\<close>

text \<open>
  \<^verbatim>\<open>str(n)\<close> and the \<^verbatim>\<open>d\<close> presentation of an f-string print an integer in
  decimal, most significant digit first, with a leading minus sign when negative.
\<close>

definition digit_char :: "nat \<Rightarrow> char" where
  "digit_char d = ''0123456789'' ! d"

fun str_nat :: "nat \<Rightarrow> string" where
  "str_nat n = (if n < 10 then [digit_char n] else str_nat (n div 10) @ [digit_char (n mod 10)])"

declare str_nat.simps [simp del]

definition str_int :: "int \<Rightarrow> string" where
  "str_int i = (if i < 0 then CHR ''-'' # str_nat (nat (- i)) else str_nat (nat i))"

text \<open>
  The format specification \<^verbatim>\<open>{x:0>6d}\<close>: fill character \<^verbatim>\<open>0\<close>, right aligned, minimum
  width 6. The fill goes to the left of the whole rendering, and a rendering that is
  already wider is left as it is.
\<close>

definition format_zero_fill :: "nat \<Rightarrow> int \<Rightarrow> string" where
  "format_zero_fill w i = replicate (w - length (str_int i)) CHR ''0'' @ str_int i"

text \<open>
  \<^verbatim>\<open>s.rfind(c)\<close> is the index of the last occurrence of \<^verbatim>\<open>c\<close>, or \<^verbatim>\<open>-1\<close> when there is
  none. The slices \<^verbatim>\<open>s[:k]\<close> and \<^verbatim>\<open>s[k:]\<close> count a negative \<^verbatim>\<open>k\<close> from the end of the
  string and clamp it to the string.
\<close>

definition rfind :: "string \<Rightarrow> char \<Rightarrow> int" where
  "rfind s c =
     (if c \<in> set s then int (length s) - 1 - int (length (takeWhile (\<lambda>x. x \<noteq> c) (rev s)))
      else - 1)"

definition slice_to :: "string \<Rightarrow> int \<Rightarrow> string" where
  "slice_to s k = (if k < 0 then take (nat (int (length s) + k)) s else take (nat k) s)"

definition slice_from :: "string \<Rightarrow> int \<Rightarrow> string" where
  "slice_from s k = (if k < 0 then drop (nat (int (length s) + k)) s else drop (nat k) s)"

text \<open>\<^verbatim>\<open>os.path.basename(p)\<close> is \<^verbatim>\<open>p[p.rfind("/") + 1:]\<close>.\<close>

definition basename :: "string \<Rightarrow> string" where
  "basename p = slice_from p (rfind p CHR ''/'' + 1)"

text \<open>
  \<^verbatim>\<open>range(start, stop, step)\<close> for a positive step, as a list. \<^verbatim>\<open>do_crop\<close> calls it
  only after it has checked \<^verbatim>\<open>step >= 1\<close>.
\<close>

function py_range :: "int \<Rightarrow> int \<Rightarrow> int \<Rightarrow> int list" where
  "py_range start stop step =
     (if 1 \<le> step \<and> start < stop then start # py_range (start + step) stop step else [])"
  by pat_completeness auto
termination
  by (relation "measure (\<lambda>(start, stop, step). nat (stop - start))") auto

declare py_range.simps [simp del]

section \<open>The collision-free naming loop\<close>

text \<open>
  Both \<^verbatim>\<open>add_video\<close> and \<^verbatim>\<open>do_crop\<close> contain the same loop:
  \<^verbatim>\<open>
  _name = name
  _idx = 1
  while session.query(T).filter(T.name == _name).all():
      _name = name[:name.rfind(".")] + f"({_idx})" + name[name.rfind("."):]
      _idx += 1
  name = _name
  \<close>
  The query is non-empty exactly when \<^verbatim>\<open>_name\<close> is the name of a row of the table, so the
  loop is modelled over the list of the names in the table.
\<close>

definition candidate_name :: "string \<Rightarrow> nat \<Rightarrow> string" where
  "candidate_name name idx =
     slice_to name (rfind name CHR ''.'') @ ''('' @ str_nat idx @ '')''
       @ slice_from name (rfind name CHR ''.'')"

text \<open>
  The loop stops because the table is finite and the candidates for different counters
  differ: decimal rendering is injective.
\<close>

lemma digit_char_inj: "a < 10 \<Longrightarrow> b < 10 \<Longrightarrow> digit_char a = digit_char b \<Longrightarrow> a = b"
proof -
  assume a: "a < 10" and b: "b < 10" and e: "digit_char a = digit_char b"
  have d: "distinct ''0123456789''" by simp
  have "length ''0123456789'' = 10" by simp
  with a b d e show "a = b"
    unfolding digit_char_def by (metis nth_eq_iff_index_eq)
qed

lemma str_nat_nonempty: "str_nat n \<noteq> []"
  by (subst str_nat.simps) simp

lemma str_nat_inj: "str_nat n = str_nat m \<Longrightarrow> n = m"
proof (induction n arbitrary: m rule: str_nat.induct)
  case (1 n)
  show ?case
  proof (cases "n < 10")
    case True
    note n = this
    show ?thesis
    proof (cases "m < 10")
      case True
      with n "1.prems" show ?thesis
        by (simp add: str_nat.simps [of n] str_nat.simps [of m] digit_char_inj)
    next
      case False
      with n "1.prems" show ?thesis
        using str_nat_nonempty [of "m div 10"]
        by (simp add: str_nat.simps [of n] str_nat.simps [of m])
    qed
  next
    case False
    note n = this
    show ?thesis
    proof (cases "m < 10")
      case True
      with n "1.prems" show ?thesis
        using str_nat_nonempty [of "n div 10"]
        by (simp add: str_nat.simps [of n] str_nat.simps [of m])
    next
      case False
      with n "1.prems" have e: "str_nat (n div 10) = str_nat (m div 10)"
        and d: "digit_char (n mod 10) = digit_char (m mod 10)"
        by (simp_all add: str_nat.simps [of n] str_nat.simps [of m])
      from "1.IH" [OF n e] have q: "n div 10 = m div 10" .
      from d have r: "n mod 10 = m mod 10" by (simp add: digit_char_inj)
      from q r show ?thesis by (metis div_mult_mod_eq)
    qed
  qed
qed

lemma candidate_name_inj: "candidate_name name i = candidate_name name j \<Longrightarrow> i = j"
  by (simp add: candidate_name_def str_nat_inj)

lemma finite_taken_candidates: "finite {n. candidate_name name n \<in> set taken}"
proof -
  have "inj_on (candidate_name name) {n. candidate_name name n \<in> set taken}"
    by (rule inj_onI) (rule candidate_name_inj)
  moreover have "finite (candidate_name name ` {n. candidate_name name n \<in> set taken})"
    by (rule finite_subset [of _ "set taken"]) auto
  ultimately show ?thesis by (rule finite_imageD [rotated])
qed

function name_loop :: "string list \<Rightarrow> string \<Rightarrow> string \<Rightarrow> nat \<Rightarrow> string" where
  "name_loop taken name cur idx =
     (if cur \<in> set taken then name_loop taken name (candidate_name name idx) (idx + 1)
      else cur)"
  by pat_completeness auto
termination
proof (relation "measure (\<lambda>(taken, name, cur, idx).
         2 * card {n. idx \<le> n \<and> candidate_name name n \<in> set taken}
           + (if cur \<in> set taken then 1 else 0))")
  show "wf (measure (\<lambda>(taken, name, cur, idx).
         2 * card {n. idx \<le> n \<and> candidate_name name n \<in> set taken}
           + (if cur \<in> set taken then 1 else 0)))"
    by simp
next
  fix taken :: "string list" and name cur :: string and idx :: nat
  assume cur: "cur \<in> set taken"
  let ?S = "\<lambda>i. {n. i \<le> n \<and> candidate_name name n \<in> set taken}"
  have fin: "finite (?S i)" for i
    by (rule finite_subset [OF _ finite_taken_candidates [of name taken]]) auto
  show "((taken, name, candidate_name name idx, idx + 1), (taken, name, cur, idx))
      \<in> measure (\<lambda>(taken, name, cur, idx).
         2 * card {n. idx \<le> n \<and> candidate_name name n \<in> set taken}
           + (if cur \<in> set taken then 1 else 0))"
  proof (cases "candidate_name name idx \<in> set taken")
    case True
    then have eq: "?S idx = insert idx (?S (idx + 1))" by (auto simp: le_Suc_eq)
    have "card (insert idx (?S (idx + 1))) = Suc (card (?S (idx + 1)))"
      by (rule card_insert_disjoint [OF fin]) simp
    with eq have "card (?S idx) = Suc (card (?S (idx + 1)))" by simp
    with cur True show ?thesis by simp
  next
    case False
    then have "n \<noteq> idx" if "candidate_name name n \<in> set taken" for n
      using that by auto
    then have "?S idx = ?S (idx + 1)"
      by (auto simp: Suc_le_eq order_le_less)
    with cur False show ?thesis by simp
  qed
qed

declare name_loop.simps [simp del]

definition resolve_name :: "string list \<Rightarrow> string \<Rightarrow> string" where
  "resolve_name taken name = name_loop taken name name 1"

section \<open>The catalog: rows, tables and the album\<close>

text \<open>
  The three mapped classes \<^verbatim>\<open>VideoTable\<close>, \<^verbatim>\<open>CropDefinitionTable\<close> and \<^verbatim>\<open>ImageTable\<close>.
  The foreign-key columns are prefixed with their table, since a field name is a constant.
  The four pixel columns are nullable. The column \<^verbatim>\<open>done\<close> is the field \<open>done_flag\<close>.
\<close>

record video_row =
  id_video :: int
  name_video :: string

record definition_row =
  id_definition :: int
  definition_id_video :: int
  description :: string
  done_flag :: bool
  index_start :: int
  index_end :: int
  step_index :: int
  pixel_left :: "int option"
  pixel_top :: "int option"
  pixel_right :: "int option"
  pixel_bottom :: "int option"

record image_row =
  id_image :: int
  image_id_definition :: int
  name_image :: string
  index_in_definition :: int

text \<open>
  An \<^verbatim>\<open>Album\<close> object: the three tables of its database in insertion order, its three
  in-memory counters, and the file names present in its \<^verbatim>\<open>video\<close> and \<^verbatim>\<open>image\<close>
  directories.
\<close>

record album =
  videos :: "video_row list"
  crop_definitions :: "definition_row list"
  images :: "image_row list"
  max_id_video :: int
  max_id_definition :: int
  max_id_image :: int
  dir_video :: "string set"
  dir_image :: "string set"

text \<open>
  Every \<^verbatim>\<open>raise\<close> of the source, and the exceptions of the library calls whose outcome the
  catalog determines: \<^verbatim>\<open>Query.one()\<close>, \<^verbatim>\<open>max\<close> on \<^verbatim>\<open>None\<close>, \<^verbatim>\<open>os.remove\<close>.
\<close>

datatype error =
    FileNotFound
  | VideoNotFound
  | DefinitionNotFound
  | VideoUnreadable
  | EmptyCropRegion
  | InvalidFrameRange
  | NoResultFound
  | MultipleResultsFound
  | TypeError
  | RemoveMissingFile

text \<open>
  What the album cannot see: whether a source path exists, what the decoder makes of a
  video file, and what the encoder does with an image. \<^verbatim>\<open>cap.read()\<close> returns a frame,
  returns no frame, or raises; \<^verbatim>\<open>cv2.imwrite\<close> returns true, returns false, or raises.
\<close>

datatype read_result = Frame | NoFrame | ReadRaises

datatype write_result = Written | NotWritten | WriteRaises

record capture =
  frame_count :: int
  frame_width :: int
  frame_height :: int
  read :: "int \<Rightarrow> read_result"

record env =
  path_exists :: "string \<Rightarrow> bool"
  VideoCapture :: "string \<Rightarrow> capture option"
  imwrite :: "string \<Rightarrow> int \<Rightarrow> write_result"

text \<open>
  \<^verbatim>\<open>Album.__init__\<close>: each counter starts at the largest identifier in its table, or at
  \<^verbatim>\<open>-1\<close> when the table is empty.
\<close>

definition max_id :: "int list \<Rightarrow> int" where
  "max_id ids = (case ids of [] \<Rightarrow> - 1 | x # xs \<Rightarrow> fold max xs x)"

definition album_init ::
  "video_row list \<Rightarrow> definition_row list \<Rightarrow> image_row list \<Rightarrow> string set \<Rightarrow> string set \<Rightarrow> album"
where
  "album_init vs ds ims fv fi =
     \<lparr>videos = vs, crop_definitions = ds, images = ims,
      max_id_video = max_id (map id_video vs),
      max_id_definition = max_id (map id_definition ds),
      max_id_image = max_id (map id_image ims),
      dir_video = fv, dir_image = fi\<rparr>"

definition new_album :: album where
  "new_album = album_init [] [] [] {} {}"

section \<open>Adding and removing videos and crop definitions\<close>

text \<open>
  An operation returns the album it leaves behind together with its result: \<open>Inl\<close> the
  exception it raised, \<open>Inr\<close> the value it returned.
\<close>

definition add_video :: "env \<Rightarrow> album \<Rightarrow> string \<Rightarrow> bool \<Rightarrow> album \<times> (error + int)" where
  "add_video e a path_video move =
     (if \<not> path_exists e path_video then (a, Inl FileNotFound)
      else
        let name = resolve_name (map name_video (videos a)) (basename path_video);
            idv = max_id_video a + 1
        in (a\<lparr>videos := videos a @ [\<lparr>id_video = idv, name_video = name\<rparr>],
              max_id_video := idv,
              dir_video := insert name (dir_video a)\<rparr>,
            Inr idv))"

definition add_crop_definition ::
  "album \<Rightarrow> int \<Rightarrow> int \<times> int \<times> int \<Rightarrow> (int \<times> int \<times> int \<times> int) option \<Rightarrow> string
     \<Rightarrow> album \<times> (error + int)"
where
  "add_crop_definition a idv slice rect descr =
     (if filter (\<lambda>v. id_video v = idv) (videos a) = [] then (a, Inl VideoNotFound)
      else
        let idd = max_id_definition a + 1;
            row = \<lparr>id_definition = idd, definition_id_video = idv, description = descr,
                   done_flag = False,
                   index_start = fst slice,
                   index_end = fst (snd slice),
                   step_index = snd (snd slice),
                   pixel_left = map_option (\<lambda>(l, t, r, b). l) rect,
                   pixel_top = map_option (\<lambda>(l, t, r, b). t) rect,
                   pixel_right = map_option (\<lambda>(l, t, r, b). r) rect,
                   pixel_bottom = map_option (\<lambda>(l, t, r, b). b) rect\<rparr>
        in (a\<lparr>crop_definitions := crop_definitions a @ [row], max_id_definition := idd\<rparr>,
            Inr idd))"

text \<open>
  \<^verbatim>\<open>remove_crop_definition\<close>: the images of the definition are removed, files and rows,
  only when the definition is done.
\<close>

definition remove_crop_definition :: "album \<Rightarrow> int \<Rightarrow> album \<times> (error + bool)" where
  "remove_crop_definition a idd =
     (case find (\<lambda>d. id_definition d = idd) (crop_definitions a) of
        None \<Rightarrow> (a, Inl DefinitionNotFound)
      | Some d \<Rightarrow>
          let a1 = (if done_flag d
                    then a\<lparr>images := filter (\<lambda>i. image_id_definition i \<noteq> idd) (images a),
                           dir_image := dir_image a
                             - name_image ` {i \<in> set (images a). image_id_definition i = idd}\<rparr>
                    else a)
          in (a1\<lparr>crop_definitions :=
                    filter (\<lambda>x. id_definition x \<noteq> idd) (crop_definitions a1)\<rparr>,
              Inr True))"

fun remove_each :: "album \<Rightarrow> int list \<Rightarrow> album \<times> (error + bool)" where
  "remove_each a [] = (a, Inr True)"
| "remove_each a (idd # rest) =
     (case remove_crop_definition a idd of
        (a1, Inl err) \<Rightarrow> (a1, Inl err)
      | (a1, Inr _) \<Rightarrow> remove_each a1 rest)"

text \<open>
  \<^verbatim>\<open>remove_video\<close>: the definitions of the video go first, each in a transaction of its
  own; then \<^verbatim>\<open>os.remove\<close> deletes the file, raising when it is missing; then the row goes.
\<close>

definition remove_video :: "album \<Rightarrow> int \<Rightarrow> album \<times> (error + bool)" where
  "remove_video a idv =
     (case find (\<lambda>v. id_video v = idv) (videos a) of
        None \<Rightarrow> (a, Inl VideoNotFound)
      | Some video \<Rightarrow>
          (case remove_each a
                  (map id_definition
                     (filter (\<lambda>d. definition_id_video d = idv) (crop_definitions a))) of
             (a1, Inl err) \<Rightarrow> (a1, Inl err)
           | (a1, Inr _) \<Rightarrow>
               if name_video video \<notin> dir_video a1 then (a1, Inl RemoveMissingFile)
               else (a1\<lparr>videos := filter (\<lambda>v. id_video v \<noteq> idv) (videos a1),
                        dir_video := dir_video a1 - {name_video video}\<rparr>,
                     Inr True)))"

section \<open>The crop engine\<close>

text \<open>
  The effective rectangle of \<^verbatim>\<open>do_crop\<close>: the full frame, or, when \<^verbatim>\<open>pixel_left\<close> is
  not null, the rectangle of the definition clamped to the frame. Python's \<^verbatim>\<open>max\<close> and
  \<^verbatim>\<open>min\<close> raise \<^verbatim>\<open>TypeError\<close> on a null column.
\<close>

definition effective_rect ::
  "int \<Rightarrow> int \<Rightarrow> definition_row \<Rightarrow> error + (int \<times> int \<times> int \<times> int)"
where
  "effective_rect width height d =
     (case pixel_left d of
        None \<Rightarrow> Inr (0, 0, width, height)
      | Some l \<Rightarrow>
          (case (pixel_top d, pixel_right d, pixel_bottom d) of
             (Some t, Some r, Some b) \<Rightarrow> Inr (max 0 l, max 0 t, min width r, min height b)
           | _ \<Rightarrow> Inl TypeError))"

text \<open>The test \<^verbatim>\<open>rect[2] <= rect[0] or rect[3] <= rect[1]\<close>.\<close>

fun rect_empty :: "int \<times> int \<times> int \<times> int \<Rightarrow> bool" where
  "rect_empty (l, t, r, b) \<longleftrightarrow> r \<le> l \<or> b \<le> t"

text \<open>
  The candidate file name of a frame:
  \<^verbatim>\<open>f"{id_video:0>6d}_{idx:0>8d}_{rect[0]:0>4d},{rect[1]:0>4d},{rect[2]:0>4d},{rect[3]:0>4d}.jpg"\<close>
\<close>

fun image_name :: "int \<Rightarrow> int \<Rightarrow> int \<times> int \<times> int \<times> int \<Rightarrow> string" where
  "image_name idv idx (l, t, r, b) =
     format_zero_fill 6 idv @ ''_'' @ format_zero_fill 8 idx @ ''_''
       @ format_zero_fill 4 l @ '','' @ format_zero_fill 4 t @ '',''
       @ format_zero_fill 4 r @ '','' @ format_zero_fill 4 b @ ''.jpg''"

text \<open>
  The body of the \<^verbatim>\<open>try\<close> block, over \<^verbatim>\<open>enumerate(range(idx_start, idx_end, step))\<close>.
  The album that is threaded through holds the rows added to the session so far (the name
  query flushes the session, so it sees them), the counter and the image directory. The
  result also lists the frame indices at which \<^verbatim>\<open>cap.read()\<close> was called, and tells
  whether the loop ran to its end (\<open>True\<close>) or an exception left it (\<open>False\<close>).
\<close>

fun crop_loop ::
  "env \<Rightarrow> capture \<Rightarrow> int \<Rightarrow> int \<Rightarrow> int \<times> int \<times> int \<times> int \<Rightarrow> album \<Rightarrow> (nat \<times> int) list
     \<Rightarrow> album \<times> int list \<times> bool"
where
  "crop_loop e cap idd idv rect a [] = (a, [], True)"
| "crop_loop e cap idd idv rect a ((it, idx) # rest) =
     (case read cap idx of
        ReadRaises \<Rightarrow> (a, [idx], False)
      | NoFrame \<Rightarrow>
          (case crop_loop e cap idd idv rect a rest of (a', rs, ok) \<Rightarrow> (a', idx # rs, ok))
      | Frame \<Rightarrow>
          (let name_img = resolve_name (map name_image (images a)) (image_name idv idx rect)
           in case imwrite e name_img idx of
                WriteRaises \<Rightarrow> (a, [idx], False)
              | NotWritten \<Rightarrow>
                  (case crop_loop e cap idd idv rect a rest of
                     (a', rs, ok) \<Rightarrow> (a', idx # rs, ok))
              | Written \<Rightarrow>
                  (case crop_loop e cap idd idv rect
                          (a\<lparr>images := images a
                                @ [\<lparr>id_image = max_id_image a + 1, image_id_definition = idd,
                                    name_image = name_img, index_in_definition = int it\<rparr>],
                              max_id_image := max_id_image a + 1,
                              dir_image := insert name_img (dir_image a)\<rparr>)
                          rest of
                     (a', rs, ok) \<Rightarrow> (a', idx # rs, ok))))"

text \<open>
  What one call of \<^verbatim>\<open>do_crop\<close> does: the album it leaves, what it returns or raises,
  the frame indices it tried to read, and whether it took the \<^verbatim>\<open>except\<close> branch.
\<close>

record crop_outcome =
  album_after :: album
  returned :: "error + bool"
  frames_read :: "int list"
  rolled_back :: bool

definition raises :: "album \<Rightarrow> error \<Rightarrow> crop_outcome" where
  "raises a err = \<lparr>album_after = a, returned = Inl err, frames_read = [], rolled_back = False\<rparr>"

text \<open>\<^verbatim>\<open>cv2.VideoCapture(path)\<close> is opened when the file is there and the decoder reads it.\<close>

definition open_capture :: "env \<Rightarrow> album \<Rightarrow> string \<Rightarrow> capture option" where
  "open_capture e a name = (if name \<in> dir_video a then VideoCapture e name else None)"

definition set_done :: "int \<Rightarrow> definition_row list \<Rightarrow> definition_row list" where
  "set_done idd ds = map (\<lambda>d. if id_definition d = idd then d\<lparr>done_flag := True\<rparr> else d) ds"

text \<open>
  \<^verbatim>\<open>do_crop\<close>. In the \<^verbatim>\<open>except\<close> branch the counter goes back to \<^verbatim>\<open>id_image_tmp\<close> and
  the session is rolled back, which drops the image rows of this run and leaves the
  definition as it was; the files already written stay. Both branches then commit and
  return \<^verbatim>\<open>True\<close>.
\<close>

definition do_crop :: "env \<Rightarrow> album \<Rightarrow> int \<Rightarrow> crop_outcome" where
  "do_crop e a idd =
     (case find (\<lambda>d. id_definition d = idd) (crop_definitions a) of
        None \<Rightarrow> raises a DefinitionNotFound
      | Some d \<Rightarrow>
          if done_flag d
          then \<lparr>album_after = a, returned = Inr True, frames_read = [], rolled_back = False\<rparr>
          else
            (case filter (\<lambda>v. id_video v = definition_id_video d) (videos a) of
               [] \<Rightarrow> raises a NoResultFound
             | [video] \<Rightarrow>
                 (case open_capture e a (name_video video) of
                    None \<Rightarrow> raises a VideoUnreadable
                  | Some cap \<Rightarrow>
                      (case effective_rect (frame_width cap) (frame_height cap) d of
                         Inl err \<Rightarrow> raises a err
                       | Inr rect \<Rightarrow>
                           if rect_empty rect then raises a EmptyCropRegion
                           else if index_start d < 0 \<or> step_index d < 1
                           then raises a InvalidFrameRange
                           else
                             (case crop_loop e cap idd (definition_id_video d) rect a
                                     (enumerate 0
                                        (py_range (index_start d)
                                           (min (index_end d) (frame_count cap))
                                           (step_index d))) of
                                (a1, rs, True) \<Rightarrow>
                                  \<lparr>album_after =
                                     a1\<lparr>crop_definitions := set_done idd (crop_definitions a1)\<rparr>,
                                   returned = Inr True, frames_read = rs, rolled_back = False\<rparr>
                              | (a1, rs, False) \<Rightarrow>
                                  \<lparr>album_after = a\<lparr>dir_image := dir_image a1\<rparr>,
                                   returned = Inr True, frames_read = rs, rolled_back = True\<rparr>)))
             | _ \<Rightarrow> raises a MultipleResultsFound))"

text \<open>
  \<^verbatim>\<open>do_crop_all\<close>: the identifiers of the definitions that are not done are collected
  first; then \<^verbatim>\<open>do_crop\<close> is called on each, with no handler around the call, so that an
  exception of \<^verbatim>\<open>do_crop\<close> leaves the loop and \<^verbatim>\<open>do_crop_all\<close>. The result also lists
  the identifiers on which \<^verbatim>\<open>do_crop\<close> was called.
\<close>

record batch_outcome =
  batch_album :: album
  batch_returned :: "error + bool"
  batch_called :: "int list"

fun crop_each :: "env \<Rightarrow> album \<Rightarrow> int list \<Rightarrow> batch_outcome" where
  "crop_each e a [] = \<lparr>batch_album = a, batch_returned = Inr True, batch_called = []\<rparr>"
| "crop_each e a (idd # rest) =
     (case returned (do_crop e a idd) of
        Inl err \<Rightarrow>
          \<lparr>batch_album = album_after (do_crop e a idd), batch_returned = Inl err,
           batch_called = [idd]\<rparr>
      | Inr _ \<Rightarrow>
          (case crop_each e (album_after (do_crop e a idd)) rest of
             out \<Rightarrow> out\<lparr>batch_called := idd # batch_called out\<rparr>))"

definition pending :: "album \<Rightarrow> int list" where
  "pending a = map id_definition (filter (\<lambda>d. \<not> done_flag d) (crop_definitions a))"

definition do_crop_all :: "env \<Rightarrow> album \<Rightarrow> batch_outcome" where
  "do_crop_all e a = crop_each e a (pending a)"

section \<open>Sessions: sequences of operations on one album\<close>

datatype op =
    AddVideo env string bool
  | RemoveVideo int
  | AddCropDefinition int "int \<times> int \<times> int" "(int \<times> int \<times> int \<times> int) option" string
  | RemoveCropDefinition int
  | DoCrop env int
  | DoCropAll env

text \<open>
  The album after one operation, whether it returned or raised: an exception reaches the
  caller, and the \<^verbatim>\<open>Album\<close> object lives on.
\<close>

fun exec_op :: "album \<Rightarrow> op \<Rightarrow> album" where
  "exec_op a (AddVideo e path_video move) = fst (add_video e a path_video move)"
| "exec_op a (RemoveVideo idv) = fst (remove_video a idv)"
| "exec_op a (AddCropDefinition idv slice rect descr) =
     fst (add_crop_definition a idv slice rect descr)"
| "exec_op a (RemoveCropDefinition idd) = fst (remove_crop_definition a idd)"
| "exec_op a (DoCrop e idd) = album_after (do_crop e a idd)"
| "exec_op a (DoCropAll e) = batch_album (do_crop_all e a)"

definition run :: "album \<Rightarrow> op list \<Rightarrow> album" where
  "run a ops = foldl exec_op a ops"

section \<open>Properties of the naming loop\<close>

lemmas naming_eval = resolve_name_def name_loop.simps candidate_name_def rfind_def
  slice_to_def slice_from_def str_nat.simps digit_char_def

lemma name_loop_free: "name_loop taken name cur idx \<notin> set taken"
  by (induction taken name cur idx rule: name_loop.induct)
     (subst name_loop.simps, simp)

lemma resolve_name_free: "resolve_name taken name \<notin> set taken"
  unfolding resolve_name_def by (rule name_loop_free)

text \<open>
  Claim C6. The naming loop never returns a name that the existence check reports as
  taken: whatever the names in the table and the desired name, the result is not among
  the names in the table. With \<^verbatim>\<open>a.jpg\<close> and \<^verbatim>\<open>a(1).jpg\<close> taken, the desired name
  \<^verbatim>\<open>a.jpg\<close> resolves to \<^verbatim>\<open>a(2).jpg\<close>.
\<close>

theorem resolve_name_not_taken:
  "resolve_name taken name \<notin> set taken
   \<and> resolve_name [''a.jpg'', ''a(1).jpg''] ''a.jpg'' = ''a(2).jpg''"
proof
  show "resolve_name taken name \<notin> set taken"
    by (rule resolve_name_free)
  show "resolve_name [''a.jpg'', ''a(1).jpg''] ''a.jpg'' = ''a(2).jpg''"
    by (simp add: naming_eval)
qed

text \<open>
  Claim C7. For a desired name without a \<^verbatim>\<open>.\<close> the claim expects the suffix after the
  whole name, \<^verbatim>\<open>clip(1)\<close>. In the source \<^verbatim>\<open>name.rfind(".")\<close> is \<^verbatim>\<open>-1\<close> for such a name,
  so \<^verbatim>\<open>name[:-1]\<close> drops the last character and \<^verbatim>\<open>name[-1:]\<close> puts it after the suffix:
  the taken name \<^verbatim>\<open>clip\<close> resolves to \<^verbatim>\<open>cli(1)p\<close>, and not to \<^verbatim>\<open>clip(1)\<close>.
\<close>

theorem no_extension_suffix_inside_name:
  "resolve_name [''clip''] ''clip'' = ''cli(1)p''
   \<and> resolve_name [''clip''] ''clip'' \<noteq> ''clip(1)''"
  by (simp add: naming_eval)

end
